theory Spec2Isabelle
  imports Main "HOL-Library.Word"
begin

unbundle bit_operations_syntax

section \<open>The Redis Bull queue external scaler (redis\_bull\_scaler.go)\<close>

text \<open>
  A shallow embedding of the gRPC handlers of \<^verbatim>\<open>src/go/redis_bull_scaler.go\<close>.
  Go's \<^verbatim>\<open>int64\<close> is a 64-bit word read through \<open>sint\<close>; a Go \<^verbatim>\<open>error\<close> is a
  value of the datatype \<open>error\<close> and \<^verbatim>\<open>nil\<close> is \<open>None\<close>; a handler returns the pair
  (response, error) that the Go function returns. The \<^verbatim>\<open>log.Printf\<close> lines of the
  handlers write to the process log only and are left out.
\<close>

subsection \<open>Values and errors\<close>

type_synonym int64 = "64 word"
type_synonym uint64 = "64 word"

text \<open>
  \<open>Errorf m\<close> is the error built by \<^verbatim>\<open>fmt.Errorf\<close> with the formatted message \<open>m\<close>;
  \<open>NumError\<close> is the error of package strconv with its cause; \<open>RedisError m\<close> is an
  error handed back by the Redis client (connection failure, timeout, cancelled context).
\<close>

datatype num_cause = ErrSyntax | ErrRange

datatype error = Errorf string | NumError num_cause | RedisError string

subsection \<open>getMetadataValue\<close>

text \<open>
  \<^verbatim>\<open>value, exists := metadata[key]
  if !exists || value == "" { return "", fmt.Errorf("required metadata %s is missing or empty", key) }
  return value, nil\<close>
\<close>

definition getMetadataValue :: "(string \<rightharpoonup> string) \<Rightarrow> string \<Rightarrow> string \<times> error option" where
  "getMetadataValue metadata key =
     (case metadata key of
        None \<Rightarrow> ('''', Some (Errorf (''required metadata '' @ key @ '' is missing or empty'')))
      | Some v \<Rightarrow>
          if v = '''' then ('''', Some (Errorf (''required metadata '' @ key @ '' is missing or empty'')))
          else (v, None))"

subsection \<open>strconv.ParseUint and strconv.ParseInt, base 10 and bit size 64\<close>

text \<open>
  The handlers call \<^verbatim>\<open>strconv.ParseInt(maxPodsStr, 10, 64)\<close> of the Go standard library.
  Its loop over the bytes of the string is modelled as the library has it, for the fixed
  base 10 and bit size 64: \<^verbatim>\<open>cutoff = maxUint64/10 + 1\<close>, \<^verbatim>\<open>maxVal = 1<<64 - 1\<close>, the
  accumulator \<^verbatim>\<open>n\<close> is a \<^verbatim>\<open>uint64\<close> whose arithmetic wraps. With an explicit base
  the underscore case of the library's switch is never taken. \<^verbatim>\<open>lower(c)\<close> is
  \<^verbatim>\<open>c | ('x' - 'X')\<close>.
\<close>

definition lower :: "nat \<Rightarrow> nat" where
  "lower c = c OR 32"

definition digitOf :: "char \<Rightarrow> nat option" where
  "digitOf c =
     (let b = (of_char c :: nat) in
      if 48 \<le> b \<and> b \<le> 57 then Some (b - 48)
      else if 97 \<le> lower b \<and> lower b \<le> 122 then Some (lower b - 97 + 10)
      else None)"

definition cutoff10 :: uint64 where
  "cutoff10 = 1844674407370955162"

definition maxVal :: uint64 where
  "maxVal = 18446744073709551615"

fun parseUintLoop :: "uint64 \<Rightarrow> string \<Rightarrow> uint64 \<times> error option" where
  "parseUintLoop n [] = (n, None)"
| "parseUintLoop n (c # cs) =
     (case digitOf c of
        None \<Rightarrow> (0, Some (NumError ErrSyntax))
      | Some d \<Rightarrow>
          if 10 \<le> d then (0, Some (NumError ErrSyntax))
          else if cutoff10 \<le> n then (maxVal, Some (NumError ErrRange))
          else if n * 10 + of_nat d < n * 10 \<or> maxVal < n * 10 + of_nat d
            then (maxVal, Some (NumError ErrRange))
          else parseUintLoop (n * 10 + of_nat d) cs)"

definition ParseUint :: "string \<Rightarrow> uint64 \<times> error option" where
  "ParseUint s = (if s = [] then (0, Some (NumError ErrSyntax)) else parseUintLoop 0 s)"

text \<open>
  \<^verbatim>\<open>ParseInt\<close> picks off a leading sign, converts the rest unsigned and checks the range
  against \<^verbatim>\<open>cutoff = 1 << 63\<close>. A range error of \<^verbatim>\<open>ParseUint\<close> is not returned at once:
  it comes back with \<^verbatim>\<open>maxVal\<close>, which the range checks below then reject.
\<close>

definition cutoff63 :: uint64 where
  "cutoff63 = 9223372036854775808"

definition ParseInt :: "string \<Rightarrow> int64 \<times> error option" where
  "ParseInt s =
     (case s of
        [] \<Rightarrow> (0, Some (NumError ErrSyntax))
      | c # cs \<Rightarrow>
          (let neg = (c = CHR ''-'');
               s1 = (if c = CHR ''+'' then cs else if c = CHR ''-'' then cs else s);
               (un, err) = ParseUint s1
           in if err \<noteq> None \<and> err \<noteq> Some (NumError ErrRange) then (0, err)
              else if \<not> neg \<and> cutoff63 \<le> un then (cutoff63 - 1, Some (NumError ErrRange))
              else if neg \<and> cutoff63 < un then (- cutoff63, Some (NumError ErrRange))
              else (if neg then - un else un, None)))"

text \<open>
  \<^verbatim>\<open>strconv.Atoi(s)\<close> is \<^verbatim>\<open>ParseInt(s, 10, 0)\<close> converted to \<^verbatim>\<open>int\<close>; its fast path for
  short strings computes the same value. \<^verbatim>\<open>int\<close> is taken as 64 bits wide.
\<close>

definition Atoi :: "string \<Rightarrow> int64 \<times> error option" where
  "Atoi s = ParseInt s"

subsection \<open>Decimal rendering for the \<^verbatim>\<open>%d\<close> verb\<close>

function showNat :: "nat \<Rightarrow> string" where
  "showNat n =
     (if n < 10 then [char_of (48 + n)]
      else showNat (n div 10) @ [char_of (48 + n mod 10)])"
  by pat_completeness auto
termination
  by (relation "measure id") auto

definition showInt :: "int \<Rightarrow> string" where
  "showInt i = (if i < 0 then CHR ''-'' # showNat (nat (- i)) else showNat (nat i))"

subsection \<open>validatePortNumber\<close>

definition validatePortNumber :: "string \<Rightarrow> error option" where
  "validatePortNumber portStr =
     (case Atoi portStr of
        (port, Some err) \<Rightarrow> Some (Errorf (''port must be a valid number, got: '' @ portStr))
      | (port, None) \<Rightarrow>
          if sint port \<le> 0 \<or> 65535 < sint port
          then Some (Errorf (''port must be between 1 and 65535, got: '' @ showInt (sint port)))
          else None)"

subsection \<open>The Redis client\<close>

text \<open>
  The client is the only state a call touches. \<open>issued\<close> is the list of list names for
  which a length query (LLEN) has been sent so far, oldest first; \<open>respond\<close> is the
  store's answer to the next query, which may depend on what was asked before: the cause
  of a failure (connection failure, timeout, cancelled context), which the client hands
  back as an error, or the length of the list.
  \<^verbatim>\<open>s.redisClient.LLen(ctx, key).Result()\<close> sends one query and returns the answer.
\<close>

record redisClient =
  respond :: "string list \<Rightarrow> string \<Rightarrow> string + int64"
  issued :: "string list"

definition LLen :: "redisClient \<Rightarrow> string \<Rightarrow> (error + int64) \<times> redisClient" where
  "LLen c key =
     (case respond c (issued c) key of
        Inl cause \<Rightarrow> (Inl (RedisError cause), c\<lparr>issued := issued c @ [key]\<rparr>)
      | Inr n \<Rightarrow> (Inr n, c\<lparr>issued := issued c @ [key]\<rparr>))"

record server =
  redisClient :: redisClient

subsection \<open>Protocol messages\<close>

text \<open>
  Modelled from the spec: the generated package \<^verbatim>\<open>externalscaler\<close> (imported as
  \<^verbatim>\<open>pb\<close>) is not among the sources. The messages are declared with the fields the
  handlers read and write; a message-typed field is a pointer in Go and may be nil, so
  \<open>ScaledObjectRef\<close> of a \<^verbatim>\<open>GetMetricsRequest\<close> is optional. The metric value and the
  target size are \<^verbatim>\<open>int64\<close>. A nil metadata map reads as the empty map.
\<close>

record ScaledObjectRef =
  Name :: string
  Namespace :: string
  ScalerMetadata :: "string \<rightharpoonup> string"

record GetMetricsRequest =
  ScaledObjectRef :: "ScaledObjectRef option"
  MetricName :: string

record IsActiveResponse =
  Result :: bool

record MetricSpec =
  MetricSpec_MetricName :: string
  MetricSpec_TargetSize :: int64

record GetMetricSpecResponse =
  MetricSpecs :: "MetricSpec list"

record MetricValue =
  MetricValue_MetricName :: string
  MetricValue_MetricValue :: int64

record GetMetricsResponse =
  MetricValues :: "MetricValue list"

subsection \<open>IsActive\<close>

definition IsActive :: "server \<Rightarrow> ScaledObjectRef \<Rightarrow> (IsActiveResponse \<times> error option) \<times> server" where
  "IsActive s req =
     (case getMetadataValue (ScalerMetadata req) ''waitList'' of
        (waitList, Some err) \<Rightarrow> ((\<lparr>Result = False\<rparr>, Some err), s)
      | (waitList, None) \<Rightarrow>
     (case getMetadataValue (ScalerMetadata req) ''activeList'' of
        (activeList, Some err) \<Rightarrow> ((\<lparr>Result = False\<rparr>, Some err), s)
      | (activeList, None) \<Rightarrow>
     (case LLen (redisClient s) waitList of
        (Inl err, c1) \<Rightarrow> ((\<lparr>Result = False\<rparr>, Some err), s\<lparr>redisClient := c1\<rparr>)
      | (Inr waitLen, c1) \<Rightarrow>
     (case LLen c1 activeList of
        (Inl err, c2) \<Rightarrow> ((\<lparr>Result = False\<rparr>, Some err), s\<lparr>redisClient := c2\<rparr>)
      | (Inr activeLen, c2) \<Rightarrow>
          ((\<lparr>Result = (0 < sint (waitLen + activeLen))\<rparr>, None), s\<lparr>redisClient := c2\<rparr>)))))"

subsection \<open>GetMetricSpec\<close>

definition GetMetricSpec ::
  "server \<Rightarrow> ScaledObjectRef \<Rightarrow> (GetMetricSpecResponse \<times> error option) \<times> server" where
  "GetMetricSpec s req =
     (let spec = \<lparr>MetricSpec_MetricName = ''bull_queue_length'', MetricSpec_TargetSize = 1\<rparr>
      in ((\<lparr>MetricSpecs = [spec]\<rparr>, None), s))"

subsection \<open>GetMetrics\<close>

text \<open>
  The first statement of \<^verbatim>\<open>GetMetrics\<close> reads \<^verbatim>\<open>req.ScaledObjectRef.Namespace\<close>: on a
  request without a scaled-object reference this dereferences nil and the call panics,
  which is the result \<open>None\<close>.
\<close>

definition GetMetrics ::
  "server \<Rightarrow> GetMetricsRequest \<Rightarrow> (GetMetricsResponse \<times> error option) option \<times> server" where
  "GetMetrics s req =
     (case ScaledObjectRef req of
        None \<Rightarrow> (None, s)
      | Some ref \<Rightarrow>
     (case getMetadataValue (ScalerMetadata ref) ''waitList'' of
        (waitList, Some err) \<Rightarrow> (Some (\<lparr>MetricValues = []\<rparr>, Some err), s)
      | (waitList, None) \<Rightarrow>
     (case getMetadataValue (ScalerMetadata ref) ''activeList'' of
        (activeList, Some err) \<Rightarrow> (Some (\<lparr>MetricValues = []\<rparr>, Some err), s)
      | (activeList, None) \<Rightarrow>
     (case getMetadataValue (ScalerMetadata ref) ''maxPods'' of
        (maxPodsStr, Some err) \<Rightarrow> (Some (\<lparr>MetricValues = []\<rparr>, Some err), s)
      | (maxPodsStr, None) \<Rightarrow>
     (case ParseInt maxPodsStr of (maxPods, err) \<Rightarrow>
        if err \<noteq> None \<or> sint maxPods \<le> 0
        then (Some (\<lparr>MetricValues = []\<rparr>,
                Some (Errorf (''maxPods must be a positive integer, got: '' @ maxPodsStr))), s)
        else
     (case LLen (redisClient s) waitList of
        (Inl err, c1) \<Rightarrow> (Some (\<lparr>MetricValues = []\<rparr>, Some err), s\<lparr>redisClient := c1\<rparr>)
      | (Inr waitLen, c1) \<Rightarrow>
     (case LLen c1 activeList of
        (Inl err, c2) \<Rightarrow> (Some (\<lparr>MetricValues = []\<rparr>, Some err), s\<lparr>redisClient := c2\<rparr>)
      | (Inr activeLen, c2) \<Rightarrow>
          (let total = waitLen + activeLen;
               metricValue = (if sint maxPods < sint total then maxPods else total)
           in (Some (\<lparr>MetricValues =
                        [\<lparr>MetricValue_MetricName = ''bull_queue_length'',
                          MetricValue_MetricValue = metricValue\<rparr>]\<rparr>, None),
               s\<lparr>redisClient := c2\<rparr>)))))))))"

subsection \<open>Startup: getEnv, NewServer and main\<close>

text \<open>
  What the process does at startup is a list of events, in the order of the calls:
  \<open>Listen p ok\<close> is \<^verbatim>\<open>net.Listen("tcp", ":p")\<close> and whether it bound the socket,
  \<open>Getenv k\<close> a read of the environment, \<open>NewClient addr\<close> the creation of the Redis
  client, \<open>Ping ok\<close> the handshake with the store and whether it succeeded, \<open>Serving\<close>
  the call \<^verbatim>\<open>grpcServer.Serve(lis)\<close> from which on calls are answered, and \<open>Exit c\<close> the
  end of the process with status \<open>c\<close>. \<^verbatim>\<open>log.Fatalf\<close> writes to the log and calls
  \<^verbatim>\<open>os.Exit(1)\<close>. The record \<open>startup\<close> holds what the surroundings answer:
  the environment (\<^verbatim>\<open>os.Getenv\<close> gives the empty string for an unset variable), the
  error of \<^verbatim>\<open>net.Listen\<close> and of the ping if any, the store's answers to later
  queries, and how \<^verbatim>\<open>Serve\<close> returns: \<open>None\<close> when it keeps serving, \<open>Some None\<close>
  when it returns nil, \<open>Some (Some e)\<close> when it returns an error.
\<close>

datatype event =
  Listen nat bool | Getenv string | NewClient string | Ping bool | Serving | Exit nat

record startup =
  environ :: "string \<Rightarrow> string"
  listenError :: "string option"
  pingError :: "string option"
  store :: "string list \<Rightarrow> string \<Rightarrow> string + int64"
  serveReturn :: "string option option"

text \<open>\<open>getEnv\<close>: \<open>None\<close> is the fatal exit on an empty or unset variable.\<close>

definition getEnv :: "(string \<Rightarrow> string) \<Rightarrow> string \<Rightarrow> string option" where
  "getEnv env key = (let val = env key in if val = [] then None else Some val)"

definition NewServer :: "startup \<Rightarrow> event list \<times> server option" where
  "NewServer st =
     (case getEnv (environ st) ''REDIS_HOST'' of
        None \<Rightarrow> ([Getenv ''REDIS_HOST'', Exit 1], None)
      | Some redisHost \<Rightarrow>
     (case getEnv (environ st) ''REDIS_PORT'' of
        None \<Rightarrow> ([Getenv ''REDIS_HOST'', Getenv ''REDIS_PORT'', Exit 1], None)
      | Some redisPort \<Rightarrow>
     (case validatePortNumber redisPort of
        Some err \<Rightarrow> ([Getenv ''REDIS_HOST'', Getenv ''REDIS_PORT'', Exit 1], None)
      | None \<Rightarrow>
     (case pingError st of
        Some err \<Rightarrow>
          ([Getenv ''REDIS_HOST'', Getenv ''REDIS_PORT'',
            NewClient (redisHost @ '':'' @ redisPort), Ping False, Exit 1], None)
      | None \<Rightarrow>
          ([Getenv ''REDIS_HOST'', Getenv ''REDIS_PORT'',
            NewClient (redisHost @ '':'' @ redisPort), Ping True],
           Some \<lparr>redisClient = \<lparr>respond = store st, issued = []\<rparr>\<rparr>)))))"

definition main :: "startup \<Rightarrow> event list" where
  "main st =
     (let port = 8080 in
      case listenError st of
        Some err \<Rightarrow> [Listen port False, Exit 1]
      | None \<Rightarrow>
          Listen port True #
          (case NewServer st of
             (events, None) \<Rightarrow> events
           | (events, Some srv) \<Rightarrow>
               events @ Serving #
               (case serveReturn st of
                  None \<Rightarrow> []
                | Some (Some err) \<Rightarrow> [Exit 1]
                | Some None \<Rightarrow> [Exit 0])))"

text \<open>A start with a valid environment in which the store does not answer the ping.\<close>

definition storeDownAtStart :: startup where
  "storeDownAtStart =
     \<lparr>environ = (\<lambda>key. if key = ''REDIS_HOST'' then ''redis-service''
                        else if key = ''REDIS_PORT'' then ''6379'' else []),
      listenError = None,
      pingError = Some ''dial tcp: connection refused'',
      store = (\<lambda>asked key. Inl ''dial tcp: connection refused''),
      serveReturn = None\<rparr>"

subsection \<open>What the spec calls a string encoding a positive integer\<close>

text \<open>
  Written from the spec's words, to be compared with \<open>ParseInt\<close> above: a string
  encodes a 64-bit integer when it is an optional sign \<open>+\<close> or \<open>-\<close> followed by one or
  more decimal digits and the integer so denoted lies between \<open>-2^63\<close> and \<open>2^63 - 1\<close>;
  it encodes a strictly positive one when that integer is greater than 0.
\<close>

definition isDigit :: "char \<Rightarrow> bool" where
  "isDigit c = (48 \<le> (of_char c :: nat) \<and> (of_char c :: nat) \<le> 57)"

definition decimalFrom :: "nat \<Rightarrow> string \<Rightarrow> nat" where
  "decimalFrom n ds = foldl (\<lambda>n c. 10 * n + (of_char c - 48)) n ds"

definition decimalValue :: "string \<Rightarrow> nat" where
  "decimalValue ds = decimalFrom 0 ds"

definition signOf :: "string \<Rightarrow> bool" where
  "signOf s = (s \<noteq> [] \<and> hd s = CHR ''-'')"

definition digitsOf :: "string \<Rightarrow> string" where
  "digitsOf s = (if s \<noteq> [] \<and> (hd s = CHR ''+'' \<or> hd s = CHR ''-'') then tl s else s)"

definition spec_int64 :: "string \<Rightarrow> int option" where
  "spec_int64 s =
     (let ds = digitsOf s;
          v = (if signOf s then - int (decimalValue ds) else int (decimalValue ds))
      in if ds \<noteq> [] \<and> list_all isDigit ds \<and> - (2 ^ 63) \<le> v \<and> v < 2 ^ 63 then Some v else None)"

definition spec_positive_int64 :: "string \<Rightarrow> bool" where
  "spec_positive_int64 s = (case spec_int64 s of None \<Rightarrow> False | Some v \<Rightarrow> 0 < v)"

subsection \<open>Conditions of the validation steps\<close>

text \<open>
  \<open>missingOrEmpty\<close> is the condition \<^verbatim>\<open>!exists || value == ""\<close> of \<^verbatim>\<open>getMetadataValue\<close>;
  \<open>invalidMaxPods\<close> is the condition \<^verbatim>\<open>err != nil || maxPods <= 0\<close> that \<^verbatim>\<open>GetMetrics\<close>
  tests on the result of \<^verbatim>\<open>strconv.ParseInt(maxPodsStr, 10, 64)\<close>.
\<close>

definition missingOrEmpty :: "(string \<rightharpoonup> string) \<Rightarrow> string \<Rightarrow> bool" where
  "missingOrEmpty metadata key = (metadata key = None \<or> metadata key = Some [])"

definition invalidMaxPods :: "string \<Rightarrow> bool" where
  "invalidMaxPods maxPodsStr =
     (case ParseInt maxPodsStr of (maxPods, err) \<Rightarrow> err \<noteq> None \<or> sint maxPods \<le> 0)"

subsection \<open>A scaled job, a store that answers and a store that is down\<close>

text \<open>
  The metadata of the example ScaledJob of the repository's README, parameterised by the
  text of \<^verbatim>\<open>maxPods\<close>; a store holding \<open>w\<close> waiting and \<open>a\<close> active jobs (LLEN of
  any other key is 0); a store whose every query fails.
\<close>

definition exampleMetadata :: "string \<Rightarrow> (string \<rightharpoonup> string)" where
  "exampleMetadata maxPods =
     [''waitList'' \<mapsto> ''bull:test-queue:wait'',
      ''activeList'' \<mapsto> ''bull:test-queue:active'',
      ''maxPods'' \<mapsto> maxPods]"

definition exampleRef :: "string \<Rightarrow> ScaledObjectRef" where
  "exampleRef maxPods =
     \<lparr>Name = ''redis-bull-worker'', Namespace = ''bullmq-test'',
      ScalerMetadata = exampleMetadata maxPods\<rparr>"

definition exampleClient :: "int64 \<Rightarrow> int64 \<Rightarrow> redisClient" where
  "exampleClient w a =
     \<lparr>respond = (\<lambda>asked key.
        if key = ''bull:test-queue:wait'' then Inr w
        else if key = ''bull:test-queue:active'' then Inr a
        else Inr 0),
      issued = []\<rparr>"

definition downClient :: redisClient where
  "downClient = \<lparr>respond = (\<lambda>asked key. Inl ''dial tcp: connection refused''), issued = []\<rparr>"

section \<open>Properties\<close>

subsection \<open>Auxiliary facts\<close>

lemmas ex_defs = exampleMetadata_def exampleRef_def exampleClient_def downClient_def

lemmas parse_defs = ParseInt_def ParseUint_def digitOf_def lower_def cutoff10_def maxVal_def
        cutoff63_def word_le_nat_alt word_less_nat_alt

lemma getMetadataValue_missing:
  "missingOrEmpty metadata key \<Longrightarrow>
     getMetadataValue metadata key =
       ([], Some (Errorf (''required metadata '' @ key @ '' is missing or empty'')))"
  by (auto simp: missingOrEmpty_def getMetadataValue_def)

lemma getMetadataValue_present:
  "\<not> missingOrEmpty metadata key \<Longrightarrow> getMetadataValue metadata key = (the (metadata key), None)"
  by (auto simp: missingOrEmpty_def getMetadataValue_def)

lemma ParseInt_empty: "ParseInt [] = (0, Some (NumError ErrSyntax))"
  by (simp add: ParseInt_def)

lemma sint_add_no_overflow:
  fixes w a :: int64
  assumes "- (2 ^ 63) \<le> sint w + sint a" "sint w + sint a < 2 ^ 63"
  shows "sint (w + a) = sint w + sint a"
  using assms by (simp add: sint_word_ariths signed_take_bit_int_eq_self)

subsection \<open>strconv.ParseInt against the spec's reading of an integer string\<close>

text \<open>
  The loop of \<open>ParseUint\<close> accepts exactly the non-empty digit strings whose value is
  below \<open>2^64\<close> and returns that value; an overflow of the 64-bit accumulator is caught
  by the \<open>cutoff10\<close> test or by the wrap-around test. \<open>ParseInt\<close> then accepts exactly
  the strings \<open>spec_int64\<close> gives a value to, and returns that value.
\<close>

lemma decimalFrom_Cons [simp]:
  "decimalFrom n (c # cs) = decimalFrom (10 * n + (of_char c - 48)) cs"
  by (simp add: decimalFrom_def)

lemma decimalFrom_Nil [simp]: "decimalFrom n [] = n"
  by (simp add: decimalFrom_def)

lemma decimalFrom_ge: "n \<le> decimalFrom n cs"
proof (induction cs arbitrary: n)
  case Nil
  show ?case by simp
next
  case (Cons c cs)
  have "n \<le> 10 * n + (of_char c - 48)" by simp
  also have "\<dots> \<le> decimalFrom (10 * n + (of_char c - 48)) cs" by (rule Cons.IH)
  finally show ?case by simp
qed

lemma digitOf_digit: "isDigit c \<Longrightarrow> digitOf c = Some (of_char c - 48)"
  by (simp add: isDigit_def digitOf_def)

lemma digitOf_other: "\<not> isDigit c \<Longrightarrow> digitOf c = Some d \<Longrightarrow> 10 \<le> d"
  by (auto simp: isDigit_def digitOf_def Let_def split: if_splits)

lemma isDigit_bound: "isDigit c \<Longrightarrow> (of_char c :: nat) - 48 < 10"
  by (auto simp: isDigit_def)

lemma unat_step:
  fixes n :: uint64
  shows "unat (n * 10 + of_nat d) = (unat n * 10 + d) mod 2 ^ 64"
  by (simp add: unat_word_ariths unat_of_nat mod_simps)

lemma unat_times10:
  fixes n :: uint64
  shows "unat (n * 10) = (unat n * 10) mod 2 ^ 64"
  by (simp add: unat_word_ariths)

lemma step_fits:
  fixes n :: uint64
  assumes "10 * unat n + d < 2 ^ 64"
  shows "\<not> cutoff10 \<le> n" and "\<not> n * 10 + of_nat d < n * 10"
    and "\<not> maxVal < n * 10 + of_nat d" and "unat (n * 10 + of_nat d) = 10 * unat n + d"
proof -
  from assms show "\<not> cutoff10 \<le> n"
    by (simp add: word_le_nat_alt cutoff10_def)
  from assms show u: "unat (n * 10 + of_nat d) = 10 * unat n + d"
    by (simp add: unat_step mult.commute)
  from assms have "unat (n * 10) = 10 * unat n"
    by (simp add: unat_times10 mult.commute)
  with u show "\<not> n * 10 + of_nat d < n * 10"
    by (simp add: word_less_nat_alt)
  have "unat (n * 10 + of_nat d) < 2 ^ 64"
    using u assms by simp
  then show "\<not> maxVal < n * 10 + of_nat d"
    by (simp add: word_less_nat_alt maxVal_def)
qed

lemma step_wraps:
  fixes n :: uint64
  assumes "d < 10" and "2 ^ 64 \<le> 10 * unat n + d"
  shows "cutoff10 \<le> n \<or> n * 10 + of_nat d < n * 10"
proof (cases "cutoff10 \<le> n")
  case True
  then show ?thesis by simp
next
  case False
  then have small: "unat n < 1844674407370955162"
    by (simp add: word_le_nat_alt cutoff10_def)
  then have t: "unat (n * 10) = unat n * 10"
    by (simp add: unat_times10)
  from small assms have "unat n * 10 + d < 2 * 2 ^ 64" by simp
  with assms(2) have "(unat n * 10 + d) mod 2 ^ 64 = unat n * 10 + d - 2 ^ 64"
    by (simp add: mult.commute mod_if)
  with assms(1) have "(unat n * 10 + d) mod 2 ^ 64 < unat n * 10"
    using assms(2) by simp
  then show ?thesis
    by (simp add: word_less_nat_alt unat_step t)
qed

lemma parseUintLoop_other:
  "\<not> isDigit c \<Longrightarrow> parseUintLoop n (c # cs) = (0, Some (NumError ErrSyntax))"
  by (auto split: option.splits dest: digitOf_other)

lemma parseUintLoop_digit:
  "isDigit c \<Longrightarrow>
     parseUintLoop n (c # cs) =
       (if cutoff10 \<le> n \<or> n * 10 + of_nat (of_char c - 48) < n * 10 \<or>
           maxVal < n * 10 + of_nat (of_char c - 48)
        then (maxVal, Some (NumError ErrRange))
        else parseUintLoop (n * 10 + of_nat (of_char c - 48)) cs)"
  using isDigit_bound [of c] by (simp add: digitOf_digit)

declare parseUintLoop.simps(2) [simp del]

lemma parseUintLoop_ok:
  "list_all isDigit cs \<Longrightarrow> decimalFrom (unat n) cs < 2 ^ 64 \<Longrightarrow>
     parseUintLoop n cs = (of_nat (decimalFrom (unat n) cs), None)"
proof (induction cs arbitrary: n)
  case Nil
  have "unat n < 2 ^ LENGTH(64)" by (rule unsigned_less)
  then show ?case by simp
next
  case (Cons c cs)
  let ?d = "(of_char c :: nat) - 48"
  from Cons.prems have dig: "isDigit c" and rest: "list_all isDigit cs" by simp_all
  have "10 * unat n + ?d \<le> decimalFrom (10 * unat n + ?d) cs"
    by (rule decimalFrom_ge)
  with Cons.prems(2) have fits: "10 * unat n + ?d < 2 ^ 64" by simp
  note st = step_fits [OF fits]
  have "decimalFrom (unat (n * 10 + of_nat ?d)) cs < 2 ^ 64"
    using Cons.prems(2) st(4) by simp
  from Cons.IH [OF rest this] have "parseUintLoop (n * 10 + of_nat ?d) cs =
      (of_nat (decimalFrom (unat n) (c # cs)), None)"
    by (simp add: st(4))
  then show ?case
    using st(1-3) by (simp add: parseUintLoop_digit [OF dig])
qed

lemma parseUintLoop_None:
  "snd (parseUintLoop n cs) = None \<Longrightarrow> list_all isDigit cs \<and> decimalFrom (unat n) cs < 2 ^ 64"
proof (induction cs arbitrary: n)
  case Nil
  have "unat n < 2 ^ LENGTH(64)" by (rule unsigned_less)
  then show ?case by simp
next
  case (Cons c cs)
  let ?d = "(of_char c :: nat) - 48"
  have dig: "isDigit c"
  proof (rule ccontr)
    assume "\<not> isDigit c"
    with Cons.prems show False
      by (simp add: parseUintLoop_other)
  qed
  have d: "?d < 10"
    using dig by (rule isDigit_bound)
  have fits: "10 * unat n + ?d < 2 ^ 64"
  proof (rule ccontr)
    assume "\<not> 10 * unat n + ?d < 2 ^ 64"
    then have "cutoff10 \<le> n \<or> n * 10 + of_nat ?d < n * 10"
      using step_wraps [OF d, of n] by simp
    then have "parseUintLoop n (c # cs) = (maxVal, Some (NumError ErrRange))"
      by (auto simp: parseUintLoop_digit [OF dig])
    with Cons.prems show False by simp
  qed
  note st = step_fits [OF fits]
  have "parseUintLoop n (c # cs) = parseUintLoop (n * 10 + of_nat ?d) cs"
    using st(1-3) by (simp add: parseUintLoop_digit [OF dig])
  with Cons.prems have "snd (parseUintLoop (n * 10 + of_nat ?d) cs) = None"
    by simp
  from Cons.IH [OF this] show ?case
    using dig st(4) by simp
qed

lemma parseUintLoop_error:
  "parseUintLoop n cs = (v, Some e) \<Longrightarrow>
     (e = NumError ErrSyntax \<and> v = 0) \<or> (e = NumError ErrRange \<and> v = maxVal)"
proof (induction cs arbitrary: n)
  case Nil
  then show ?case by simp
next
  case (Cons c cs)
  show ?case
  proof (cases "isDigit c")
    case False
    with Cons.prems show ?thesis by (simp add: parseUintLoop_other)
  next
    case True
    show ?thesis
    proof (cases "cutoff10 \<le> n \<or> n * 10 + of_nat (of_char c - 48) < n * 10 \<or>
           maxVal < n * 10 + of_nat (of_char c - 48)")
      case True
      with Cons.prems \<open>isDigit c\<close> show ?thesis
        by (auto simp: parseUintLoop_digit)
    next
      case False
      with Cons.prems \<open>isDigit c\<close>
      have "parseUintLoop (n * 10 + of_nat (of_char c - 48)) cs = (v, Some e)"
        by (simp add: parseUintLoop_digit)
      then show ?thesis by (rule Cons.IH)
    qed
  qed
qed

declare parseUintLoop.simps(2) [simp]

lemma ParseUint_None:
  "snd (ParseUint ds) = None \<longleftrightarrow> ds \<noteq> [] \<and> list_all isDigit ds \<and> decimalValue ds < 2 ^ 64"
proof (cases "ds = []")
  case True
  then show ?thesis by (simp add: ParseUint_def)
next
  case False
  show ?thesis
  proof
    assume "snd (ParseUint ds) = None"
    with False have "snd (parseUintLoop 0 ds) = None" by (simp add: ParseUint_def)
    from parseUintLoop_None [OF this] False
    show "ds \<noteq> [] \<and> list_all isDigit ds \<and> decimalValue ds < 2 ^ 64"
      by (simp add: decimalValue_def)
  next
    assume "ds \<noteq> [] \<and> list_all isDigit ds \<and> decimalValue ds < 2 ^ 64"
    then show "snd (ParseUint ds) = None"
      using parseUintLoop_ok [of ds 0] by (simp add: ParseUint_def decimalValue_def)
  qed
qed

lemma ParseUint_value:
  assumes "snd (ParseUint ds) = None"
  shows "fst (ParseUint ds) = of_nat (decimalValue ds)"
proof -
  from assms have "ds \<noteq> []" "list_all isDigit ds" "decimalFrom (unat (0 :: uint64)) ds < 2 ^ 64"
    by (simp_all add: ParseUint_None decimalValue_def)
  from parseUintLoop_ok [OF this(2,3)] this(1) show ?thesis
    by (simp add: ParseUint_def decimalValue_def)
qed

lemma ParseUint_error:
  "ParseUint ds = (v, Some e) \<Longrightarrow>
     (e = NumError ErrSyntax \<and> v = 0) \<or> (e = NumError ErrRange \<and> v = maxVal)"
  by (auto simp: ParseUint_def dest: parseUintLoop_error split: if_splits)

lemma sint_of_nat_small:
  "v < 2 ^ 63 \<Longrightarrow> sint (of_nat v :: int64) = int v"
  by (simp add: signed_of_nat signed_take_bit_int_eq_self)

lemma sint_neg_of_nat:
  assumes "v \<le> 2 ^ 63"
  shows "sint (- (of_nat v :: int64)) = - int v"
proof (cases "v = 2 ^ 63")
  case True
  then show ?thesis by simp
next
  case False
  with assms have "v < 2 ^ 63" by simp
  then show ?thesis
    by (simp add: sint_word_ariths sint_of_nat_small signed_take_bit_int_eq_self)
qed

lemma cutoff63_le:
  "v < 2 ^ 64 \<Longrightarrow> cutoff63 \<le> (of_nat v :: uint64) \<longleftrightarrow> 2 ^ 63 \<le> v"
  by (simp add: word_le_nat_alt cutoff63_def unat_of_nat)

lemma cutoff63_less:
  "v < 2 ^ 64 \<Longrightarrow> cutoff63 < (of_nat v :: uint64) \<longleftrightarrow> 2 ^ 63 < v"
  by (simp add: word_less_nat_alt cutoff63_def unat_of_nat)

lemma cutoff63_maxVal: "cutoff63 \<le> maxVal" "cutoff63 < maxVal"
  by (simp_all add: cutoff63_def maxVal_def word_le_nat_alt word_less_nat_alt)

lemma ParseInt_unfold:
  "s \<noteq> [] \<Longrightarrow> ParseInt s =
     (case ParseUint (digitsOf s) of (un, err) \<Rightarrow>
        if err \<noteq> None \<and> err \<noteq> Some (NumError ErrRange) then (0, err)
        else if \<not> signOf s \<and> cutoff63 \<le> un then (cutoff63 - 1, Some (NumError ErrRange))
        else if signOf s \<and> cutoff63 < un then (- cutoff63, Some (NumError ErrRange))
        else (if signOf s then - un else un, None))"
  by (cases s) (auto simp: ParseInt_def signOf_def digitsOf_def Let_def split: prod.splits)

lemma ParseInt_refines:
  "case spec_int64 s of
     None \<Rightarrow> snd (ParseInt s) \<noteq> None
   | Some v \<Rightarrow> snd (ParseInt s) = None \<and> sint (fst (ParseInt s)) = v"
proof (cases "s = []")
  case True
  then show ?thesis by (simp add: spec_int64_def signOf_def digitsOf_def ParseInt_def)
next
  case ne: False
  let ?ds = "digitsOf s"
  let ?v = "decimalValue ?ds"
  have spec: "spec_int64 s =
     (let v = (if signOf s then - int ?v else int ?v)
      in if ?ds \<noteq> [] \<and> list_all isDigit ?ds \<and> - (2 ^ 63) \<le> v \<and> v < 2 ^ 63 then Some v else None)"
    by (simp add: spec_int64_def Let_def)
  show ?thesis
  proof (cases "snd (ParseUint ?ds)")
    case None
    then have ok: "?ds \<noteq> []" "list_all isDigit ?ds" "?v < 2 ^ 64"
      by (simp_all add: ParseUint_None)
    from None have pu: "ParseUint ?ds = (of_nat ?v, None)"
      using ParseUint_value [OF None] by (simp add: prod_eq_iff)
    show ?thesis
    proof (cases "signOf s")
      case True
      then show ?thesis
        using ok sint_neg_of_nat [of ?v]
        by (simp add: spec ParseInt_unfold [OF ne] pu cutoff63_less [OF ok(3)] Let_def not_less)
    next
      case False
      then show ?thesis
        using ok sint_of_nat_small [of ?v]
        by (simp add: spec ParseInt_unfold [OF ne] pu cutoff63_le [OF ok(3)] Let_def not_le)
    qed
  next
    case (Some e)
    then obtain un where pu: "ParseUint ?ds = (un, Some e)"
      by (cases "ParseUint ?ds") simp
    from Some have bad: "\<not> (?ds \<noteq> [] \<and> list_all isDigit ?ds \<and> ?v < 2 ^ 64)"
      using ParseUint_None [of ?ds] by simp
    then have none: "spec_int64 s = None"
      by (auto simp: spec Let_def)
    from ParseUint_error [OF pu] have "snd (ParseInt s) \<noteq> None"
      using cutoff63_maxVal by (auto simp: ParseInt_unfold [OF ne] pu)
    with none show ?thesis by simp
  qed
qed

lemma invalidMaxPods_spec: "invalidMaxPods ms \<longleftrightarrow> \<not> spec_positive_int64 ms"
  using ParseInt_refines [of ms]
  by (auto simp: invalidMaxPods_def spec_positive_int64_def split: option.splits prod.splits)

subsection \<open>Metadata resolution\<close>


text \<open>
  C9. For every metadata mapping and every key, \<open>getMetadataValue\<close> returns the mapped
  value with a nil error exactly when the key is present with a non-empty value; in every
  other case (key absent, or mapped to the empty string) it returns the empty string
  together with the error "required metadata <key> is missing or empty", which names the
  key. No other value is ever returned in place of a missing one.
\<close>

theorem getMetadataValue_exact:
  "(metadata key = Some v \<and> v \<noteq> '''' \<longrightarrow> getMetadataValue metadata key = (v, None)) \<and>
   (metadata key = None \<or> metadata key = Some '''' \<longrightarrow>
      getMetadataValue metadata key =
        ('''', Some (Errorf (''required metadata '' @ key @ '' is missing or empty'')))) \<and>
   (snd (getMetadataValue metadata key) = None \<longleftrightarrow> (\<exists>w. metadata key = Some w \<and> w \<noteq> ''''))"
  by (auto simp: getMetadataValue_def split: option.split)

theorem getMetadataValue_exact_witness:
  "getMetadataValue [''waitList'' \<mapsto> ''bull:q:wait''] ''waitList'' = (''bull:q:wait'', None) \<and>
   getMetadataValue [''waitList'' \<mapsto> ''''] ''waitList'' =
     ('''', Some (Errorf ''required metadata waitList is missing or empty'')) \<and>
   getMetadataValue Map.empty ''maxPods'' =
     ('''', Some (Errorf ''required metadata maxPods is missing or empty''))"
  using getMetadataValue_exact [of "[''waitList'' \<mapsto> ''bull:q:wait'']" "''waitList''" "''bull:q:wait''"]
    getMetadataValue_exact [of "[''waitList'' \<mapsto> '''']" "''waitList''"]
    getMetadataValue_exact [of "Map.empty" "''maxPods''"]
  by simp

subsection \<open>The metric descriptor\<close>

text \<open>
  C8. For every server state and every scale-target reference, whatever its name,
  namespace and metadata, \<open>GetMetricSpec\<close> returns the same descriptor: one metric spec
  with metric name "bull\_queue\_length" and target size 1, with a nil error. The server
  with its Redis client comes back unchanged, so no store query is issued.
\<close>

theorem GetMetricSpec_constant:
  "GetMetricSpec s req =
     ((\<lparr>MetricSpecs = [\<lparr>MetricSpec_MetricName = ''bull_queue_length'',
                          MetricSpec_TargetSize = 1\<rparr>]\<rparr>, None), s)"
  by (simp add: GetMetricSpec_def)

subsection \<open>Liveness\<close>

text \<open>
  C2. For every call to \<open>IsActive\<close> whose metadata carries non-empty \<open>waitList\<close> and
  \<open>activeList\<close> and whose two store reads succeed with lengths \<open>w\<close> and \<open>a\<close>, the
  call returns a nil error and the boolean \<open>(w + a) > 0\<close>, with Go's \<^verbatim>\<open>int64\<close> sum. It
  is false for \<open>w = 0\<close> and \<open>a = 0\<close>; whenever the sum of the two lengths fits in 64
  signed bits, it is the truth value of "the integer \<open>w + a\<close> is positive".
\<close>

theorem IsActive_result:
  assumes "ScalerMetadata req ''waitList'' = Some wl" and "wl \<noteq> []"
    and "ScalerMetadata req ''activeList'' = Some al" and "al \<noteq> []"
    and "respond (redisClient s) (issued (redisClient s)) wl = Inr w"
    and "respond (redisClient s) (issued (redisClient s) @ [wl]) al = Inr a"
  shows "fst (IsActive s req) = (\<lparr>Result = (0 < sint (w + a))\<rparr>, None) \<and>
         (w = 0 \<and> a = 0 \<longrightarrow> fst (IsActive s req) = (\<lparr>Result = False\<rparr>, None)) \<and>
         (- (2 ^ 63) \<le> sint w + sint a \<and> sint w + sint a < 2 ^ 63 \<longrightarrow>
            fst (IsActive s req) = (\<lparr>Result = (0 < sint w + sint a)\<rparr>, None))"
proof -
  have run: "fst (IsActive s req) = (\<lparr>Result = (0 < sint (w + a))\<rparr>, None)"
    using assms by (simp add: IsActive_def getMetadataValue_def LLen_def)
  moreover have "w = 0 \<and> a = 0 \<longrightarrow> \<not> 0 < sint (w + a)"
    by simp
  moreover have "- (2 ^ 63) \<le> sint w + sint a \<and> sint w + sint a < 2 ^ 63 \<longrightarrow>
                   sint (w + a) = sint w + sint a"
    using sint_add_no_overflow by blast
  ultimately show ?thesis by simp
qed

theorem IsActive_result_witness:
  "fst (IsActive \<lparr>redisClient = exampleClient 3 2\<rparr> (exampleRef ''10'')) = (\<lparr>Result = True\<rparr>, None) \<and>
   fst (IsActive \<lparr>redisClient = exampleClient 0 0\<rparr> (exampleRef ''10'')) = (\<lparr>Result = False\<rparr>, None)"
  using IsActive_result [of "exampleRef ''10''" "''bull:test-queue:wait''" "''bull:test-queue:active''"
      "\<lparr>redisClient = exampleClient 3 2\<rparr>" 3 2]
    IsActive_result [of "exampleRef ''10''" "''bull:test-queue:wait''" "''bull:test-queue:active''"
      "\<lparr>redisClient = exampleClient 0 0\<rparr>" 0 0]
  by (simp add: ex_defs)

subsection \<open>The metric value\<close>

text \<open>
  C1. For every call to \<open>GetMetrics\<close> with valid metadata (non-empty \<open>waitList\<close> and
  \<open>activeList\<close>, \<open>maxPods\<close> parsing as a strictly positive integer) and successful
  store reads returning \<open>w\<close> and \<open>a\<close>, the call returns a nil error and one metric
  value named "bull\_queue\_length" equal to \<open>min (w + a) maxPods\<close>: the two counts are
  summed first (Go's \<^verbatim>\<open>int64\<close> sum) and the ceiling is applied to the sum only. When
  \<open>w + a \<le> maxPods\<close> the value is \<open>w + a\<close> exactly; whenever the sum of the two lengths
  fits in 64 signed bits the value is the minimum of the integers \<open>w + a\<close> and \<open>maxPods\<close>.
\<close>

theorem GetMetrics_value:
  assumes "ScaledObjectRef req = Some ref"
    and "ScalerMetadata ref ''waitList'' = Some wl" and "wl \<noteq> []"
    and "ScalerMetadata ref ''activeList'' = Some al" and "al \<noteq> []"
    and "ScalerMetadata ref ''maxPods'' = Some ms"
    and "ParseInt ms = (maxPods, None)" and "0 < sint maxPods"
    and "respond (redisClient s) (issued (redisClient s)) wl = Inr w"
    and "respond (redisClient s) (issued (redisClient s) @ [wl]) al = Inr a"
  shows "(\<exists>v. fst (GetMetrics s req) =
            Some (\<lparr>MetricValues = [\<lparr>MetricValue_MetricName = ''bull_queue_length'',
                                     MetricValue_MetricValue = v\<rparr>]\<rparr>, None) \<and>
          v = (if sint maxPods < sint (w + a) then maxPods else w + a) \<and>
          (sint (w + a) \<le> sint maxPods \<longrightarrow> v = w + a) \<and>
          (- (2 ^ 63) \<le> sint w + sint a \<and> sint w + sint a < 2 ^ 63 \<longrightarrow>
             sint v = min (sint w + sint a) (sint maxPods)))"
proof -
  define v where "v = (if sint maxPods < sint (w + a) then maxPods else w + a)"
  have ms: "ms \<noteq> []"
    using assms(7) by (auto simp: ParseInt_def)
  have run: "fst (GetMetrics s req) =
            Some (\<lparr>MetricValues = [\<lparr>MetricValue_MetricName = ''bull_queue_length'',
                                     MetricValue_MetricValue = v\<rparr>]\<rparr>, None)"
    using assms ms by (simp add: GetMetrics_def getMetadataValue_def LLen_def v_def)
  have small: "sint (w + a) \<le> sint maxPods \<longrightarrow> v = w + a"
    by (simp add: v_def)
  have exact: "- (2 ^ 63) \<le> sint w + sint a \<and> sint w + sint a < 2 ^ 63 \<longrightarrow>
             sint v = min (sint w + sint a) (sint maxPods)"
    using sint_add_no_overflow [of w a] by (auto simp: v_def)
  from run small exact show ?thesis
    using v_def by blast
qed

theorem GetMetrics_value_witness:
  "fst (GetMetrics \<lparr>redisClient = exampleClient 3 2\<rparr>
          \<lparr>ScaledObjectRef = Some (exampleRef ''10''), MetricName = ''bull_queue_length''\<rparr>) =
     Some (\<lparr>MetricValues = [\<lparr>MetricValue_MetricName = ''bull_queue_length'',
                              MetricValue_MetricValue = 5\<rparr>]\<rparr>, None) \<and>
   fst (GetMetrics \<lparr>redisClient = exampleClient 8 4\<rparr>
          \<lparr>ScaledObjectRef = Some (exampleRef ''10''), MetricName = ''bull_queue_length''\<rparr>) =
     Some (\<lparr>MetricValues = [\<lparr>MetricValue_MetricName = ''bull_queue_length'',
                              MetricValue_MetricValue = 10\<rparr>]\<rparr>, None)"
  using GetMetrics_value [of "\<lparr>ScaledObjectRef = Some (exampleRef ''10''), MetricName = ''bull_queue_length''\<rparr>"
      "exampleRef ''10''" "''bull:test-queue:wait''" "''bull:test-queue:active''" "''10''" 10
      "\<lparr>redisClient = exampleClient 3 2\<rparr>" 3 2]
    GetMetrics_value [of "\<lparr>ScaledObjectRef = Some (exampleRef ''10''), MetricName = ''bull_queue_length''\<rparr>"
      "exampleRef ''10''" "''bull:test-queue:wait''" "''bull:test-queue:active''" "''10''" 10
      "\<lparr>redisClient = exampleClient 8 4\<rparr>" 8 4]
  by (simp add: ex_defs parse_defs)

subsection \<open>Errors of the liveness query\<close>

text \<open>
  C7. \<open>IsActive\<close> returns a nil error exactly when nothing failed: both queue names
  resolved and both store reads answered. When metadata resolution fails the error
  returned is the validation error built by \<^verbatim>\<open>fmt.Errorf\<close>; when a store read fails it
  is the error of the Redis client, handed on as it is. A failure is therefore never
  turned into a successful response carrying \<open>false\<close>.
\<close>

theorem IsActive_error_surfaced:
  "(snd (fst (IsActive s req)) = None \<longleftrightarrow>
      (\<exists>wl al w a.
         ScalerMetadata req ''waitList'' = Some wl \<and> wl \<noteq> [] \<and>
         ScalerMetadata req ''activeList'' = Some al \<and> al \<noteq> [] \<and>
         respond (redisClient s) (issued (redisClient s)) wl = Inr w \<and>
         respond (redisClient s) (issued (redisClient s) @ [wl]) al = Inr a)) \<and>
   (missingOrEmpty (ScalerMetadata req) ''waitList'' \<or>
    missingOrEmpty (ScalerMetadata req) ''activeList'' \<longrightarrow>
      (\<exists>m. snd (fst (IsActive s req)) = Some (Errorf m))) \<and>
   (\<forall>wl al cause.
      ScalerMetadata req ''waitList'' = Some wl \<and> wl \<noteq> [] \<and>
      ScalerMetadata req ''activeList'' = Some al \<and> al \<noteq> [] \<and>
      (respond (redisClient s) (issued (redisClient s)) wl = Inl cause \<or>
       (\<exists>w. respond (redisClient s) (issued (redisClient s)) wl = Inr w) \<and>
       respond (redisClient s) (issued (redisClient s) @ [wl]) al = Inl cause) \<longrightarrow>
      snd (fst (IsActive s req)) = Some (RedisError cause))"
  by (auto simp: IsActive_def getMetadataValue_def LLen_def missingOrEmpty_def
      split: option.splits sum.splits)

theorem IsActive_error_surfaced_witness:
  "snd (fst (IsActive \<lparr>redisClient = downClient\<rparr> (exampleRef ''10''))) =
     Some (RedisError ''dial tcp: connection refused'') \<and>
   (\<exists>m. snd (fst (IsActive \<lparr>redisClient = exampleClient 3 2\<rparr>
        \<lparr>Name = ''w'', Namespace = ''ns'', ScalerMetadata = Map.empty\<rparr>)) = Some (Errorf m))"
  using IsActive_error_surfaced [of "\<lparr>redisClient = downClient\<rparr>" "exampleRef ''10''"]
    IsActive_error_surfaced [of "\<lparr>redisClient = exampleClient 3 2\<rparr>"
        "\<lparr>Name = ''w'', Namespace = ''ns'', ScalerMetadata = Map.empty\<rparr>"]
  by (simp add: ex_defs missingOrEmpty_def)

subsection \<open>Which missing key is reported\<close>

text \<open>
  C10. When several required keys are missing or empty, the error returned names the
  first one in the order \<open>waitList\<close>, \<open>activeList\<close>, \<open>maxPods\<close> for \<open>GetMetrics\<close>
  and \<open>waitList\<close>, \<open>activeList\<close> for \<open>IsActive\<close>. The whole result is a fixed
  value that depends on the metadata only, not on the state of the server or the store:
  the same faulty input always gives the same error.
\<close>

theorem first_missing_key_reported:
  "(ScaledObjectRef req = Some ref \<and> missingOrEmpty (ScalerMetadata ref) ''waitList'' \<longrightarrow>
      GetMetrics s req =
        (Some (\<lparr>MetricValues = []\<rparr>,
           Some (Errorf ''required metadata waitList is missing or empty'')), s)) \<and>
   (ScaledObjectRef req = Some ref \<and> \<not> missingOrEmpty (ScalerMetadata ref) ''waitList'' \<and>
    missingOrEmpty (ScalerMetadata ref) ''activeList'' \<longrightarrow>
      GetMetrics s req =
        (Some (\<lparr>MetricValues = []\<rparr>,
           Some (Errorf ''required metadata activeList is missing or empty'')), s)) \<and>
   (ScaledObjectRef req = Some ref \<and> \<not> missingOrEmpty (ScalerMetadata ref) ''waitList'' \<and>
    \<not> missingOrEmpty (ScalerMetadata ref) ''activeList'' \<and>
    missingOrEmpty (ScalerMetadata ref) ''maxPods'' \<longrightarrow>
      GetMetrics s req =
        (Some (\<lparr>MetricValues = []\<rparr>,
           Some (Errorf ''required metadata maxPods is missing or empty'')), s)) \<and>
   (missingOrEmpty (ScalerMetadata r) ''waitList'' \<longrightarrow>
      IsActive s r =
        ((\<lparr>Result = False\<rparr>, Some (Errorf ''required metadata waitList is missing or empty'')), s)) \<and>
   (\<not> missingOrEmpty (ScalerMetadata r) ''waitList'' \<and>
    missingOrEmpty (ScalerMetadata r) ''activeList'' \<longrightarrow>
      IsActive s r =
        ((\<lparr>Result = False\<rparr>, Some (Errorf ''required metadata activeList is missing or empty'')), s))"
  by (auto simp: GetMetrics_def IsActive_def getMetadataValue_missing getMetadataValue_present)


theorem first_missing_key_reported_witness:
  "GetMetrics \<lparr>redisClient = downClient\<rparr>
     \<lparr>ScaledObjectRef = Some \<lparr>Name = ''w'', Namespace = ''ns'', ScalerMetadata = Map.empty\<rparr>,
      MetricName = ''bull_queue_length''\<rparr> =
     (Some (\<lparr>MetricValues = []\<rparr>,
        Some (Errorf ''required metadata waitList is missing or empty'')),
      \<lparr>redisClient = downClient\<rparr>) \<and>
   GetMetrics \<lparr>redisClient = downClient\<rparr>
     \<lparr>ScaledObjectRef = Some \<lparr>Name = ''w'', Namespace = ''ns'',
        ScalerMetadata = [''waitList'' \<mapsto> ''q:wait'']\<rparr>,
      MetricName = ''bull_queue_length''\<rparr> =
     (Some (\<lparr>MetricValues = []\<rparr>,
        Some (Errorf ''required metadata activeList is missing or empty'')),
      \<lparr>redisClient = downClient\<rparr>) \<and>
   GetMetrics \<lparr>redisClient = downClient\<rparr>
     \<lparr>ScaledObjectRef = Some \<lparr>Name = ''w'', Namespace = ''ns'',
        ScalerMetadata = [''waitList'' \<mapsto> ''q:wait'', ''activeList'' \<mapsto> ''q:active'']\<rparr>,
      MetricName = ''bull_queue_length''\<rparr> =
     (Some (\<lparr>MetricValues = []\<rparr>,
        Some (Errorf ''required metadata maxPods is missing or empty'')),
      \<lparr>redisClient = downClient\<rparr>) \<and>
   IsActive \<lparr>redisClient = downClient\<rparr>
     \<lparr>Name = ''w'', Namespace = ''ns'', ScalerMetadata = [''maxPods'' \<mapsto> ''10'']\<rparr> =
     ((\<lparr>Result = False\<rparr>, Some (Errorf ''required metadata waitList is missing or empty'')),
      \<lparr>redisClient = downClient\<rparr>) \<and>
   IsActive \<lparr>redisClient = downClient\<rparr>
     \<lparr>Name = ''w'', Namespace = ''ns'',
      ScalerMetadata = [''waitList'' \<mapsto> ''q:wait'', ''activeList'' \<mapsto> '''']\<rparr> =
     ((\<lparr>Result = False\<rparr>, Some (Errorf ''required metadata activeList is missing or empty'')),
      \<lparr>redisClient = downClient\<rparr>)"
  using first_missing_key_reported
      [of "\<lparr>ScaledObjectRef = Some \<lparr>Name = ''w'', Namespace = ''ns'', ScalerMetadata = Map.empty\<rparr>,
            MetricName = ''bull_queue_length''\<rparr>"
          "\<lparr>Name = ''w'', Namespace = ''ns'', ScalerMetadata = Map.empty\<rparr>"
          "\<lparr>redisClient = downClient\<rparr>"
          "\<lparr>Name = ''w'', Namespace = ''ns'', ScalerMetadata = [''maxPods'' \<mapsto> ''10'']\<rparr>"]
    first_missing_key_reported
      [of "\<lparr>ScaledObjectRef = Some \<lparr>Name = ''w'', Namespace = ''ns'',
              ScalerMetadata = [''waitList'' \<mapsto> ''q:wait'']\<rparr>,
            MetricName = ''bull_queue_length''\<rparr>"
          "\<lparr>Name = ''w'', Namespace = ''ns'', ScalerMetadata = [''waitList'' \<mapsto> ''q:wait'']\<rparr>"
          "\<lparr>redisClient = downClient\<rparr>"
          "\<lparr>Name = ''w'', Namespace = ''ns'',
            ScalerMetadata = [''waitList'' \<mapsto> ''q:wait'', ''activeList'' \<mapsto> '''']\<rparr>"]
    first_missing_key_reported
      [of "\<lparr>ScaledObjectRef = Some \<lparr>Name = ''w'', Namespace = ''ns'',
              ScalerMetadata = [''waitList'' \<mapsto> ''q:wait'', ''activeList'' \<mapsto> ''q:active'']\<rparr>,
            MetricName = ''bull_queue_length''\<rparr>"
          "\<lparr>Name = ''w'', Namespace = ''ns'',
            ScalerMetadata = [''waitList'' \<mapsto> ''q:wait'', ''activeList'' \<mapsto> ''q:active'']\<rparr>"
          "\<lparr>redisClient = downClient\<rparr>"]
  by (simp add: missingOrEmpty_def)

subsection \<open>Validation comes before the first store query\<close>

text \<open>
  C5, as stated: every call to \<open>IsActive\<close> or \<open>GetMetrics\<close> in which a required key
  is missing or empty or \<open>maxPods\<close> is invalid returns the validation error without
  any store query. This fails for \<open>IsActive\<close>, which resolves the two queue names only
  and never reads \<open>maxPods\<close>: on the request below, whose \<open>maxPods\<close> is "abc", over a
  store holding 3 waiting and 2 active jobs, it sends both length queries and answers
  \<open>true\<close> with a nil error.
\<close>

theorem IsActive_ignores_maxPods_counterexample:
  "invalidMaxPods ''abc'' \<and>
   ScalerMetadata (exampleRef ''abc'') ''maxPods'' = Some ''abc'' \<and>
   IsActive \<lparr>redisClient = exampleClient 3 2\<rparr> (exampleRef ''abc'') =
     ((\<lparr>Result = True\<rparr>, None),
      \<lparr>redisClient = exampleClient 3 2
         \<lparr>issued := [''bull:test-queue:wait'', ''bull:test-queue:active'']\<rparr>\<rparr>)"
  by (simp add: invalidMaxPods_def parse_defs IsActive_def getMetadataValue_def LLen_def ex_defs)

text \<open>
  C5, amended: for every call to \<open>GetMetrics\<close> in which metadata resolution fails
  (\<open>waitList\<close>, \<open>activeList\<close> or \<open>maxPods\<close> missing or empty, or \<open>maxPods\<close> not a
  strictly positive integer) and every call to \<open>IsActive\<close> in which \<open>waitList\<close> or
  \<open>activeList\<close> is missing or empty, the call returns a validation error built by
  \<^verbatim>\<open>fmt.Errorf\<close> and the server comes back as it was: the list of issued length
  queries has not grown, so no store query was sent. Validation of all the keys the
  operation requires completes before its first store read; \<open>maxPods\<close> is not among
  the keys \<open>IsActive\<close> requires.
\<close>

theorem validation_before_store:
  "(ScaledObjectRef req = Some ref \<and>
    (missingOrEmpty (ScalerMetadata ref) ''waitList'' \<or>
     missingOrEmpty (ScalerMetadata ref) ''activeList'' \<or>
     missingOrEmpty (ScalerMetadata ref) ''maxPods'' \<or>
     (\<exists>ms. ScalerMetadata ref ''maxPods'' = Some ms \<and> invalidMaxPods ms)) \<longrightarrow>
      (\<exists>m. fst (GetMetrics s req) = Some (\<lparr>MetricValues = []\<rparr>, Some (Errorf m))) \<and>
      snd (GetMetrics s req) = s \<and>
      issued (redisClient (snd (GetMetrics s req))) = issued (redisClient s)) \<and>
   (missingOrEmpty (ScalerMetadata r) ''waitList'' \<or>
    missingOrEmpty (ScalerMetadata r) ''activeList'' \<longrightarrow>
      (\<exists>m. fst (IsActive s r) = (\<lparr>Result = False\<rparr>, Some (Errorf m))) \<and>
      snd (IsActive s r) = s \<and>
      issued (redisClient (snd (IsActive s r))) = issued (redisClient s))"
proof -
  have gm: "(\<exists>m. fst (GetMetrics s req) = Some (\<lparr>MetricValues = []\<rparr>, Some (Errorf m))) \<and>
      snd (GetMetrics s req) = s"
    if ref: "ScaledObjectRef req = Some ref"
      and bad: "missingOrEmpty (ScalerMetadata ref) ''waitList'' \<or>
     missingOrEmpty (ScalerMetadata ref) ''activeList'' \<or>
     missingOrEmpty (ScalerMetadata ref) ''maxPods'' \<or>
     (\<exists>ms. ScalerMetadata ref ''maxPods'' = Some ms \<and> invalidMaxPods ms)"
  proof (cases "missingOrEmpty (ScalerMetadata ref) ''waitList''")
    case True
    then show ?thesis using ref by (simp add: GetMetrics_def getMetadataValue_missing)
  next
    case w: False
    show ?thesis
    proof (cases "missingOrEmpty (ScalerMetadata ref) ''activeList''")
      case True
      then show ?thesis using ref w
        by (simp add: GetMetrics_def getMetadataValue_missing getMetadataValue_present)
    next
      case a: False
      show ?thesis
      proof (cases "missingOrEmpty (ScalerMetadata ref) ''maxPods''")
        case True
        then show ?thesis using ref w a
          by (simp add: GetMetrics_def getMetadataValue_missing getMetadataValue_present)
      next
        case m: False
        with bad w a obtain ms where ms: "ScalerMetadata ref ''maxPods'' = Some ms" "invalidMaxPods ms"
          by blast
        then show ?thesis using ref w a m
          by (auto simp: GetMetrics_def getMetadataValue_present invalidMaxPods_def
              split: prod.splits)
      qed
    qed
  qed
  have ia: "(\<exists>m. fst (IsActive s r) = (\<lparr>Result = False\<rparr>, Some (Errorf m))) \<and> snd (IsActive s r) = s"
    if "missingOrEmpty (ScalerMetadata r) ''waitList'' \<or>
        missingOrEmpty (ScalerMetadata r) ''activeList''"
    using that
    by (cases "missingOrEmpty (ScalerMetadata r) ''waitList''")
      (auto simp: IsActive_def getMetadataValue_missing getMetadataValue_present)
  from gm ia show ?thesis by simp
qed

theorem validation_before_store_witness:
  "fst (GetMetrics \<lparr>redisClient = exampleClient 3 2\<rparr>
          \<lparr>ScaledObjectRef = Some (exampleRef ''abc''), MetricName = ''bull_queue_length''\<rparr>) =
     Some (\<lparr>MetricValues = []\<rparr>, Some (Errorf ''maxPods must be a positive integer, got: abc'')) \<and>
   issued (redisClient (snd (GetMetrics \<lparr>redisClient = exampleClient 3 2\<rparr>
          \<lparr>ScaledObjectRef = Some (exampleRef ''abc''), MetricName = ''bull_queue_length''\<rparr>))) = [] \<and>
   fst (IsActive \<lparr>redisClient = exampleClient 3 2\<rparr>
          \<lparr>Name = ''w'', Namespace = ''ns'', ScalerMetadata = [''waitList'' \<mapsto> ''q:wait'']\<rparr>) =
     (\<lparr>Result = False\<rparr>, Some (Errorf ''required metadata activeList is missing or empty'')) \<and>
   issued (redisClient (snd (IsActive \<lparr>redisClient = exampleClient 3 2\<rparr>
          \<lparr>Name = ''w'', Namespace = ''ns'', ScalerMetadata = [''waitList'' \<mapsto> ''q:wait'']\<rparr>))) = []"
proof -
  have bad: "invalidMaxPods ''abc''"
    by (simp add: invalidMaxPods_def parse_defs)
  have "ScalerMetadata (exampleRef ''abc'') ''maxPods'' = Some ''abc''"
    by (simp add: ex_defs)
  with bad validation_before_store
      [of "\<lparr>ScaledObjectRef = Some (exampleRef ''abc''), MetricName = ''bull_queue_length''\<rparr>"
          "exampleRef ''abc''"
          "\<lparr>redisClient = exampleClient 3 2\<rparr>"
          "\<lparr>Name = ''w'', Namespace = ''ns'', ScalerMetadata = [''waitList'' \<mapsto> ''q:wait'']\<rparr>"]
  show ?thesis
    by (simp add: missingOrEmpty_def ex_defs GetMetrics_def IsActive_def getMetadataValue_def parse_defs)
qed

subsection \<open>The keys each operation requires\<close>

text \<open>
  C4, as stated: each of \<open>IsActive\<close>, \<open>GetMetricSpec\<close> and \<open>GetMetrics\<close> returns a
  validation error when any of \<open>waitList\<close>, \<open>activeList\<close>, \<open>maxPods\<close> is absent or
  malformed. This fails: \<open>GetMetricSpec\<close> answers a request with empty metadata with its
  descriptor and a nil error, and \<open>IsActive\<close> answers a request without \<open>maxPods\<close>
  with \<open>true\<close> and a nil error.
\<close>

theorem required_keys_counterexample:
  "GetMetricSpec \<lparr>redisClient = exampleClient 3 2\<rparr>
     \<lparr>Name = ''w'', Namespace = ''ns'', ScalerMetadata = Map.empty\<rparr> =
     ((\<lparr>MetricSpecs = [\<lparr>MetricSpec_MetricName = ''bull_queue_length'',
                          MetricSpec_TargetSize = 1\<rparr>]\<rparr>, None),
      \<lparr>redisClient = exampleClient 3 2\<rparr>) \<and>
   fst (IsActive \<lparr>redisClient = exampleClient 3 2\<rparr>
     \<lparr>Name = ''w'', Namespace = ''ns'',
      ScalerMetadata = [''waitList'' \<mapsto> ''bull:test-queue:wait'',
                        ''activeList'' \<mapsto> ''bull:test-queue:active'']\<rparr>) =
     (\<lparr>Result = True\<rparr>, None)"
  by (simp add: GetMetricSpec_def IsActive_def getMetadataValue_def LLen_def ex_defs)


text \<open>
  C4, amended: \<open>GetMetrics\<close> returns a validation error exactly when one of
  \<open>waitList\<close>, \<open>activeList\<close>, \<open>maxPods\<close> is missing or empty or \<open>maxPods\<close> does
  not parse as a strictly positive integer; \<open>IsActive\<close> returns a validation error
  exactly when \<open>waitList\<close> or \<open>activeList\<close> is missing or empty (it does not read
  \<open>maxPods\<close>); \<open>GetMetricSpec\<close> reads no metadata and never returns an error. No
  default takes the place of a missing value.
\<close>

theorem required_keys_per_operation:
  "(ScaledObjectRef req = Some ref \<longrightarrow>
      ((\<exists>m. fst (GetMetrics s req) = Some (\<lparr>MetricValues = []\<rparr>, Some (Errorf m))) \<longleftrightarrow>
       (missingOrEmpty (ScalerMetadata ref) ''waitList'' \<or>
        missingOrEmpty (ScalerMetadata ref) ''activeList'' \<or>
        missingOrEmpty (ScalerMetadata ref) ''maxPods'' \<or>
        (\<exists>ms. ScalerMetadata ref ''maxPods'' = Some ms \<and> invalidMaxPods ms)))) \<and>
   ((\<exists>m. fst (IsActive s r) = (\<lparr>Result = False\<rparr>, Some (Errorf m))) \<longleftrightarrow>
      (missingOrEmpty (ScalerMetadata r) ''waitList'' \<or>
       missingOrEmpty (ScalerMetadata r) ''activeList'')) \<and>
   snd (fst (GetMetricSpec s r)) = None"
proof -
  have gm: "(\<exists>m. fst (GetMetrics s req) = Some (\<lparr>MetricValues = []\<rparr>, Some (Errorf m))) \<longleftrightarrow>
       (missingOrEmpty (ScalerMetadata ref) ''waitList'' \<or>
        missingOrEmpty (ScalerMetadata ref) ''activeList'' \<or>
        missingOrEmpty (ScalerMetadata ref) ''maxPods'' \<or>
        (\<exists>ms. ScalerMetadata ref ''maxPods'' = Some ms \<and> invalidMaxPods ms))"
    if "ScaledObjectRef req = Some ref"
    using that
    by (auto simp: GetMetrics_def getMetadataValue_def LLen_def Let_def
        missingOrEmpty_def invalidMaxPods_def split: option.splits sum.splits prod.splits if_splits)
  have ia: "(\<exists>m. fst (IsActive s r) = (\<lparr>Result = False\<rparr>, Some (Errorf m))) \<longleftrightarrow>
      (missingOrEmpty (ScalerMetadata r) ''waitList'' \<or>
       missingOrEmpty (ScalerMetadata r) ''activeList'')"
    by (auto simp: IsActive_def getMetadataValue_def LLen_def
        missingOrEmpty_def split: option.splits sum.splits if_splits)
  have ms: "snd (fst (GetMetricSpec s r)) = None"
    by (simp add: GetMetricSpec_def)
  from gm ia ms show ?thesis by blast
qed

theorem required_keys_per_operation_witness:
  "(\<exists>m. fst (GetMetrics \<lparr>redisClient = exampleClient 3 2\<rparr>
             \<lparr>ScaledObjectRef = Some (exampleRef ''0''), MetricName = ''bull_queue_length''\<rparr>) =
          Some (\<lparr>MetricValues = []\<rparr>, Some (Errorf m))) \<and>
   \<not> (\<exists>m. fst (IsActive \<lparr>redisClient = exampleClient 3 2\<rparr> (exampleRef ''0'')) =
          (\<lparr>Result = False\<rparr>, Some (Errorf m)))"
proof -
  have bad: "invalidMaxPods ''0''"
    by (simp add: invalidMaxPods_def parse_defs)
  have "ScalerMetadata (exampleRef ''0'') ''maxPods'' = Some ''0''"
    by (simp add: ex_defs)
  with bad required_keys_per_operation
      [of "\<lparr>ScaledObjectRef = Some (exampleRef ''0''), MetricName = ''bull_queue_length''\<rparr>"
          "exampleRef ''0''" "\<lparr>redisClient = exampleClient 3 2\<rparr>" "exampleRef ''0''"]
  show ?thesis
    by (simp add: missingOrEmpty_def ex_defs)
qed

subsection \<open>The ceiling check of GetMetrics\<close>

text \<open>
  C6. On a request whose \<open>waitList\<close> and \<open>activeList\<close> are present and non-empty,
  \<open>GetMetrics\<close> rejects the \<open>maxPods\<close> value with a validation error exactly when the
  value does not encode a strictly positive 64-bit integer; for a non-empty value the
  error is "maxPods must be a positive integer, got: <value>" and no store query is
  sent. The values "0", "-5" and "abc" are rejected with that error; "1" and "1000000"
  are accepted (no validation error is returned).
\<close>

theorem GetMetrics_maxPods_check:
  assumes "ScaledObjectRef req = Some ref"
    and "\<not> missingOrEmpty (ScalerMetadata ref) ''waitList''"
    and "\<not> missingOrEmpty (ScalerMetadata ref) ''activeList''"
    and "ScalerMetadata ref ''maxPods'' = Some ms"
  shows "((\<exists>m. fst (GetMetrics s req) = Some (\<lparr>MetricValues = []\<rparr>, Some (Errorf m))) \<longleftrightarrow>
            \<not> spec_positive_int64 ms) \<and>
         (ms \<noteq> [] \<and> \<not> spec_positive_int64 ms \<longrightarrow>
            GetMetrics s req =
              (Some (\<lparr>MetricValues = []\<rparr>,
                 Some (Errorf (''maxPods must be a positive integer, got: '' @ ms))), s)) \<and>
         (ms \<in> {''0'', ''-5'', ''abc''} \<longrightarrow>
            GetMetrics s req =
              (Some (\<lparr>MetricValues = []\<rparr>,
                 Some (Errorf (''maxPods must be a positive integer, got: '' @ ms))), s)) \<and>
         (ms \<in> {''1'', ''1000000''} \<longrightarrow>
            \<not> (\<exists>m. fst (GetMetrics s req) = Some (\<lparr>MetricValues = []\<rparr>, Some (Errorf m))))"
proof -
  have rejects: "(\<exists>m. fst (GetMetrics s req) = Some (\<lparr>MetricValues = []\<rparr>, Some (Errorf m))) \<longleftrightarrow>
      ms = [] \<or> invalidMaxPods ms"
    using assms
    by (auto simp: GetMetrics_def getMetadataValue_def LLen_def Let_def
        missingOrEmpty_def invalidMaxPods_def split: option.splits sum.splits prod.splits if_splits)
  have empty: "invalidMaxPods []"
    by (simp add: invalidMaxPods_def ParseInt_def)
  have iff: "(\<exists>m. fst (GetMetrics s req) = Some (\<lparr>MetricValues = []\<rparr>, Some (Errorf m))) \<longleftrightarrow>
            \<not> spec_positive_int64 ms"
    using rejects empty invalidMaxPods_spec [of ms] by auto
  have invalid: "GetMetrics s req =
              (Some (\<lparr>MetricValues = []\<rparr>,
                 Some (Errorf (''maxPods must be a positive integer, got: '' @ ms))), s)"
    if "ms \<noteq> []" and "invalidMaxPods ms"
    using assms that
    by (auto simp: GetMetrics_def getMetadataValue_def missingOrEmpty_def invalidMaxPods_def
        split: option.splits prod.splits)
  have bad: "invalidMaxPods ''0''" "invalidMaxPods ''-5''" "invalidMaxPods ''abc''"
    by (simp_all add: invalidMaxPods_def parse_defs)
  have good: "\<not> invalidMaxPods ''1''" "\<not> invalidMaxPods ''1000000''"
    by (simp_all add: invalidMaxPods_def parse_defs)
  have three: "ms \<in> {''0'', ''-5'', ''abc''} \<longrightarrow>
            GetMetrics s req =
              (Some (\<lparr>MetricValues = []\<rparr>,
                 Some (Errorf (''maxPods must be a positive integer, got: '' @ ms))), s)"
    using invalid bad by auto
  have two: "ms \<in> {''1'', ''1000000''} \<longrightarrow>
            \<not> (\<exists>m. fst (GetMetrics s req) = Some (\<lparr>MetricValues = []\<rparr>, Some (Errorf m)))"
    using rejects good by auto
  from iff invalid three two show ?thesis
    using invalidMaxPods_spec [of ms] by blast
qed

theorem GetMetrics_maxPods_check_witness:
  "GetMetrics \<lparr>redisClient = exampleClient 3 2\<rparr>
      \<lparr>ScaledObjectRef = Some (exampleRef ''-5''), MetricName = ''bull_queue_length''\<rparr> =
     (Some (\<lparr>MetricValues = []\<rparr>, Some (Errorf ''maxPods must be a positive integer, got: -5'')),
      \<lparr>redisClient = exampleClient 3 2\<rparr>) \<and>
   \<not> (\<exists>m. fst (GetMetrics \<lparr>redisClient = exampleClient 3 2\<rparr>
      \<lparr>ScaledObjectRef = Some (exampleRef ''1000000''), MetricName = ''bull_queue_length''\<rparr>) =
      Some (\<lparr>MetricValues = []\<rparr>, Some (Errorf m)))"
  using GetMetrics_maxPods_check
      [of "\<lparr>ScaledObjectRef = Some (exampleRef ''-5''), MetricName = ''bull_queue_length''\<rparr>"
          "exampleRef ''-5''" "''-5''" "\<lparr>redisClient = exampleClient 3 2\<rparr>"]
    GetMetrics_maxPods_check
      [of "\<lparr>ScaledObjectRef = Some (exampleRef ''1000000''), MetricName = ''bull_queue_length''\<rparr>"
          "exampleRef ''1000000''" "''1000000''" "\<lparr>redisClient = exampleClient 3 2\<rparr>"]
  by (simp add: ex_defs missingOrEmpty_def)

subsection \<open>Startup\<close>

lemma NewServer_ping_failed:
  "pingError st = Some e \<Longrightarrow> snd (NewServer st) = None \<and> fst (NewServer st) \<noteq> [] \<and>
     last (fst (NewServer st)) = Exit 1 \<and>
     Serving \<notin> set (fst (NewServer st)) \<and>
     (Ping False \<in> set (fst (NewServer st)) \<longrightarrow>
        fst (NewServer st) =
          [Getenv ''REDIS_HOST'', Getenv ''REDIS_PORT'',
           NewClient (environ st ''REDIS_HOST'' @ '':'' @ environ st ''REDIS_PORT''),
           Ping False, Exit 1])"
  by (auto simp: NewServer_def getEnv_def Let_def split: option.splits if_splits)

text \<open>
  C3, as stated: when the startup ping fails the process exits before the listening
  socket is bound, the handshake coming before the bind. This fails: \<open>main\<close> calls
  \<^verbatim>\<open>net.Listen\<close> first and \<open>NewServer\<close>, which pings the store, afterwards. In the
  start below the first event is the successful bind of port 8080, the failed ping comes
  later and the exit with status 1 last.
\<close>

theorem listener_bound_before_ping_counterexample:
  "pingError storeDownAtStart = Some ''dial tcp: connection refused'' \<and>
   hd (main storeDownAtStart) = Listen 8080 True \<and>
   Ping False \<in> set (tl (main storeDownAtStart)) \<and>
   last (main storeDownAtStart) = Exit 1"
  by (simp add: storeDownAtStart_def main_def NewServer_def getEnv_def validatePortNumber_def
      Atoi_def parse_defs)

text \<open>
  C3, amended: when the startup ping fails, the process ends with exit status 1 and
  \<^verbatim>\<open>Serve\<close> is never called, so no call is ever answered. The listening socket is bound
  before the handshake, not after it: whenever the failed ping is reached, the events
  of the start are the bind of port 8080, the two reads of the environment, the creation
  of the client, the failed ping and the exit, in this order.
\<close>

theorem failed_ping_exits_without_serving:
  assumes "pingError st = Some e"
  shows "last (main st) = Exit 1 \<and> Serving \<notin> set (main st) \<and>
         (Ping False \<in> set (main st) \<longrightarrow>
            main st =
              [Listen 8080 True, Getenv ''REDIS_HOST'', Getenv ''REDIS_PORT'',
               NewClient (environ st ''REDIS_HOST'' @ '':'' @ environ st ''REDIS_PORT''),
               Ping False, Exit 1])"
proof (cases "listenError st")
  case (Some err)
  then show ?thesis by (simp add: main_def)
next
  case None
  from NewServer_ping_failed [OF assms] obtain evs
    where ns: "NewServer st = (evs, None)" and ne: "evs \<noteq> []" and l: "last evs = Exit 1"
      and s: "Serving \<notin> set evs"
      and p: "Ping False \<in> set evs \<longrightarrow>
        evs = [Getenv ''REDIS_HOST'', Getenv ''REDIS_PORT'',
           NewClient (environ st ''REDIS_HOST'' @ '':'' @ environ st ''REDIS_PORT''),
           Ping False, Exit 1]"
    by (cases "NewServer st") auto
  from None ns ne l s p show ?thesis
    by (auto simp: main_def)
qed

theorem failed_ping_exits_without_serving_witness:
  "main storeDownAtStart =
     [Listen 8080 True, Getenv ''REDIS_HOST'', Getenv ''REDIS_PORT'',
      NewClient ''redis-service:6379'', Ping False, Exit 1]"
  using failed_ping_exits_without_serving [of storeDownAtStart "''dial tcp: connection refused''"]
  by (simp add: storeDownAtStart_def main_def NewServer_def getEnv_def validatePortNumber_def
      Atoi_def parse_defs)

end
